theory Spec2Isabelle
  imports Complex_Main
begin

section \<open>The chatbot service of TenderGuard (services/chatbot\_service.py)\<close>

text \<open>
  The service answers a message from the hosted model when a client is configured, and from
  a small FAQ dictionary matched by keyword overlap otherwise. This theory embeds the class
  \<open>ChatbotService\<close>: its constructor, \<open>get_response\<close>, \<open>_get_openai_response\<close>,
  \<open>_get_faq_response\<close>, \<open>add_faq_entry\<close> and \<open>is_openai_available\<close>. Python names
  that start with an underscore lose it (\<open>_get_faq_response\<close> is \<open>get_faq_response\<close>,
  \<open>__init__\<close> is \<open>init\<close>).

  Modelling decisions, each written out where it is used:
  \<^item> a Python \<open>str\<close> is a \<open>string\<close> whose characters are read as the code points 0..255;
  \<^item> a Python \<open>float\<close> is a rational number (\<open>rat\<close>): the constants 0.3, 0.9, 0.8 are
    3/10, 9/10, 4/5 and the division of two lengths is exact;
  \<^item> an exception is a value of type \<open>exn\<close>, a function that may raise returns \<open>exn + 'a\<close>;
  \<^item> the logger is an output: every function that logs returns the records it wrote;
  \<^item> the dictionary \<open>faq_database\<close> is an association list in insertion order, the order
    in which Python iterates over \<open>items()\<close>.
\<close>

subsection \<open>Strings: \<open>str.lower\<close>, \<open>str.strip\<close>, \<open>str.split\<close>\<close>

text \<open>
  Python's whitespace among the code points below 256: TAB..CR, FS..US, space, NEL (133) and
  the no-break space (160). \<open>strip()\<close> and \<open>split()\<close> without argument use this set.
\<close>

definition isspace :: "char \<Rightarrow> bool" where
  "isspace c =
     (let n = (of_char c :: nat)
      in (9 \<le> n \<and> n \<le> 13) \<or> (28 \<le> n \<and> n \<le> 32) \<or> n = 133 \<or> n = 160)"

text \<open>
  \<open>lower()\<close> on code points below 256 moves A..Z and the Latin-1 capitals (192..222 without
  the multiplication sign 215) up by 32 and leaves every other character alone.
\<close>

definition lower_char :: "char \<Rightarrow> char" where
  "lower_char c =
     (let n = (of_char c :: nat)
      in if (65 \<le> n \<and> n \<le> 90) \<or> (192 \<le> n \<and> n \<le> 214) \<or> (216 \<le> n \<and> n \<le> 222)
         then char_of (n + 32) else c)"

definition lower :: "string \<Rightarrow> string" where
  "lower s = map lower_char s"

definition strip :: "string \<Rightarrow> string" where
  "strip s = rev (dropWhile isspace (rev (dropWhile isspace s)))"

text \<open>
  \<open>split()\<close> without argument cuts at runs of whitespace and returns no empty word.
  \<open>split_from cur s\<close> scans \<open>s\<close> with the word \<open>cur\<close> begun so far.
\<close>

fun split_from :: "string \<Rightarrow> string \<Rightarrow> string list" where
  "split_from cur [] = (if cur = [] then [] else [cur])"
| "split_from cur (c # cs) =
     (if isspace c
      then (if cur = [] then split_from [] cs else cur # split_from [] cs)
      else split_from (cur @ [c]) cs)"

definition split :: "string \<Rightarrow> string list" where
  "split s = split_from [] s"

subsection \<open>Values, exceptions, log records\<close>

text \<open>
  Python does not check the annotation \<open>message: str\<close>: a caller can pass any object. The
  model keeps the strings and two kinds of objects without a \<open>lower\<close> method.
\<close>

datatype pyval = PyStr string | PyNone | PyInt int

datatype exn =
    AttributeError string
  | ValueError string
  | TypeError string
  | APIError string

fun str_exn :: "exn \<Rightarrow> string" where
  "str_exn (AttributeError t) = t"
| "str_exn (ValueError t) = t"
| "str_exn (TypeError t) = t"
| "str_exn (APIError t) = t"

fun type_name :: "pyval \<Rightarrow> string" where
  "type_name (PyStr s) = ''str''"
| "type_name PyNone = ''NoneType''"
| "type_name (PyInt i) = ''int''"

text \<open>
  The AttributeError Python raises for \<open>value.name\<close> on an object without that attribute;
  \<open>message.lower()\<close> raises it on a message that is not a string.
\<close>

definition no_attribute :: "pyval \<Rightarrow> string \<Rightarrow> exn" where
  "no_attribute v name =
     AttributeError ([CHR 0x27] @ type_name v @ [CHR 0x27] @ '' object has no attribute ''
                     @ [CHR 0x27] @ name @ [CHR 0x27])"

datatype log_record = Info string | Warning string | Error string

subsection \<open>The dictionaries\<close>

record faq_data =
  answer :: string
  confidence :: rat

record response =
  message :: string
  source :: string
  confidence :: rat

text \<open>
  \<open>d[key] = value\<close> on an insertion-ordered dictionary: an existing key keeps its place and
  gets the new value, a new key goes to the end.
\<close>

fun dict_setitem :: "('k \<times> 'v) list \<Rightarrow> 'k \<Rightarrow> 'v \<Rightarrow> ('k \<times> 'v) list" where
  "dict_setitem [] key v = [(key, v)]"
| "dict_setitem ((k, w) # items) key v =
     (if k = key then (k, v) # items else (k, w) # dict_setitem items key v)"

text \<open>
  A dictionary is true in a condition when it has a key. Every response dictionary the
  service builds has the three keys message, source and confidence; every entry of the FAQ
  dictionary has the two keys answer and confidence.
\<close>

definition response_len :: "response \<Rightarrow> nat" where
  "response_len r = 3"

definition response_truthy :: "response \<Rightarrow> bool" where
  "response_truthy r = (0 < response_len r)"

definition faq_data_len :: "faq_data \<Rightarrow> nat" where
  "faq_data_len d = 2"

definition faq_data_truthy :: "faq_data \<Rightarrow> bool" where
  "faq_data_truthy d = (0 < faq_data_len d)"

subsection \<open>The hosted model and the context\<close>

text \<open>
  The context reaches the program only through \<open>json.dumps(context, indent=2)\<close>, so a
  context is carried as what that call does with it: the text it returns, or the exception
  it raises on an object that JSON cannot express.
\<close>

datatype context_dict = Context "exn + string"

fun json_dumps :: "context_dict \<Rightarrow> exn + string" where
  "json_dumps (Context r) = r"

text \<open>
  A chat message is the pair of its role and its content. A client stands for
  \<open>client.chat.completions.create(model="gpt-4", messages=..., max_tokens=300,
  temperature=0.7)\<close> followed by \<open>response.choices[0].message.content\<close>: it raises, or it
  yields the content, which may be \<open>None\<close>.
\<close>

type_synonym chat_message = "string \<times> string"

type_synonym llm_client = "chat_message list \<Rightarrow> exn + string option"

record chatbot_service =
  openai_api_key :: "string option"
  client :: "llm_client option"
  faq_database :: "(string \<times> faq_data) list"

subsection \<open>The constructor and the seed FAQ\<close>

definition seed_faq_database :: "(string \<times> faq_data) list" where
  "seed_faq_database =
    [(''what is actms'',
      \<lparr>answer = ''ACTMS (Anti-Corruption Tender Management System) is a comprehensive platform for managing government tenders with AI-powered fraud detection.'',
       confidence = 1\<rparr>),
     (''how to submit bid'',
      \<lparr>answer = ''To submit a bid: 1) Select a tender, 2) Enter company information, 3) Provide bid amount and proposal, 4) Upload required documents, 5) Submit for review.'',
       confidence = 1\<rparr>),
     (''what is suspicious bid'',
      \<lparr>answer = ''A suspicious bid is one flagged by our AI system for unusual patterns like extremely low amounts, poor proposal quality, or suspicious timing.'',
       confidence = 1\<rparr>),
     (''how does ai detection work'',
      \<lparr>answer = ''Our AI uses Isolation Forest algorithm to analyze bid patterns, amounts, proposal quality, and timing to detect potentially fraudulent submissions.'',
       confidence = 1\<rparr>),
     (''what file formats supported'',
      \<lparr>answer = ''We support common document formats including PDF, DOC, DOCX, TXT, and XLS files up to 15MB in size.'',
       confidence = 1\<rparr>),
     (''how to view tender status'',
      \<lparr>answer = ''You can view tender status through the dashboard or by accessing the tenders API endpoint which shows active, closed, and upcoming tenders.'',
       confidence = 1\<rparr>),
     (''what is audit log'',
      \<lparr>answer = ''Audit logs track all system activities including user actions, bid submissions, and security events for compliance and monitoring.'',
       confidence = 1\<rparr>),
     (''how to check system status'',
      \<lparr>answer = ''System status can be viewed through the dashboard which shows real-time metrics, alerts, and system health indicators.'',
       confidence = 1\<rparr>)]"

text \<open>
  \<open>str_truthy\<close> is Python's truth value of \<open>os.environ.get('OPENAI_API_KEY')\<close>: false for
  \<open>None\<close> and for the empty string. The constructor takes the value of the environment
  variable and the library's \<open>OpenAI(api_key=...)\<close>, which makes a client from a key.
\<close>

definition str_truthy :: "string option \<Rightarrow> bool" where
  "str_truthy k = (case k of None \<Rightarrow> False | Some s \<Rightarrow> 0 < length s)"

definition init :: "string option \<Rightarrow> (string option \<Rightarrow> llm_client) \<Rightarrow> chatbot_service" where
  "init env_key OpenAI =
     \<lparr>openai_api_key = env_key,
      client = (if str_truthy env_key then Some (OpenAI env_key) else None),
      faq_database = seed_faq_database\<rparr>"

subsection \<open>The adapter of the hosted model: \<open>_get_openai_response\<close>\<close>

text \<open>
  The triple-quoted system prompt, line by line; every line of the source ends with a line
  feed and starts with twelve spaces of indentation.
\<close>

definition system_prompt :: string where
  "system_prompt = concat (map (\<lambda>l. l @ [CHR 0x0A])
     ['''',
      ''            You are an AI assistant for ACTMS (Anti-Corruption Tender Management System), '',
      ''            a government tender management platform with AI-powered fraud detection.'',
      ''            '',
      ''            Key capabilities:'',
      ''            - Tender management and bid submission'',
      ''            - AI-powered anomaly detection using Isolation Forest'',
      ''            - Comprehensive audit logging'',
      ''            - Secure file handling'',
      ''            - Real-time alerts for suspicious activities'',
      ''            '',
      ''            Provide helpful, accurate information about the system. Be professional and concise.'',
      ''            If you don't know something specific about the system, acknowledge it and suggest '',
      ''            contacting administrators.'']) @ ''            ''"

text \<open>\<open>messages.insert(-1, x)\<close> puts \<open>x\<close> before the last element of the list.\<close>

definition insert_before_last :: "'a \<Rightarrow> 'a list \<Rightarrow> 'a list" where
  "insert_before_last x xs = butlast xs @ x # drop (length xs - 1) xs"

definition openai_error_response :: response where
  "openai_error_response =
     \<lparr>message = ''I apologize, but I'm currently unable to provide a response. Please try asking a different question or contact support.'',
      source = ''error'',
      confidence = 0\<rparr>"

text \<open>
  The body of the \<open>try\<close> block of \<open>_get_openai_response\<close>, with the first exception raised in
  it as \<open>Inl\<close>: \<open>json.dumps\<close> on the context, the missing client, the remote call.
\<close>

definition openai_try :: "chatbot_service \<Rightarrow> string \<Rightarrow> context_dict option \<Rightarrow> exn + response" where
  "openai_try self msg ctx =
     (let messages = [(''system'', system_prompt), (''user'', msg)]
      in case (case ctx of
                 None \<Rightarrow> Inr messages
               | Some c \<Rightarrow>
                   (case json_dumps c of
                      Inl e \<Rightarrow> Inl e
                    | Inr dumped \<Rightarrow>
                        Inr (insert_before_last
                               (''system'', ''Additional context: '' @ dumped) messages)))
         of Inl e \<Rightarrow> Inl e
          | Inr messages \<Rightarrow>
              (case client self of
                 None \<Rightarrow> Inl (ValueError ''OpenAI client not initialized'')
               | Some create \<Rightarrow>
                   (let formatted_messages = map (\<lambda>m. (fst m, snd m)) messages
                    in case create formatted_messages of
                         Inl e \<Rightarrow> Inl e
                       | Inr content \<Rightarrow>
                           Inr \<lparr>message = strip (case content of
                                    None \<Rightarrow> ''I apologize, but I couldn't generate a response. Please try again.''
                                  | Some c \<Rightarrow> c),
                                source = ''openai'',
                                confidence = 9 / 10\<rparr>)))"

text \<open>
  The whole body of \<open>_get_openai_response\<close> is inside \<open>try ... except Exception\<close>: the
  function returns a response whatever happens, and logs the exception it caught.
\<close>

definition get_openai_response ::
    "chatbot_service \<Rightarrow> string \<Rightarrow> context_dict option \<Rightarrow> response \<times> log_record list" where
  "get_openai_response self msg ctx =
     (case openai_try self msg ctx of
        Inr r \<Rightarrow> (r, [])
      | Inl e \<Rightarrow> (openai_error_response, [Error (''OpenAI API error: '' @ str_exn e)]))"

subsection \<open>The FAQ matcher: \<open>_get_faq_response\<close>\<close>

text \<open>
  The \<open>for\<close> loop over \<open>self.faq_database.items()\<close>, with the pair of \<open>best_match\<close> and
  \<open>best_score\<close> as its state. \<open>overlap\<close> counts the distinct words common to the key and
  the message; the divisor is \<open>len(faq_keywords)\<close>, the length of the list of the key's
  words.
\<close>

fun faq_loop ::
    "string \<Rightarrow> (string \<times> faq_data) list \<Rightarrow> faq_data option \<times> rat \<Rightarrow> faq_data option \<times> rat" where
  "faq_loop msg [] (best_match, best_score) = (best_match, best_score)"
| "faq_loop msg ((faq_key, data) # items) (best_match, best_score) =
     (let faq_keywords = split faq_key;
          message_words = split msg;
          overlap = card (set faq_keywords \<inter> set message_words);
          score = of_nat overlap / of_nat (max (length faq_keywords) 1)
      in if score > best_score \<and> score > 3 / 10
         then faq_loop msg items (Some data, score)
         else faq_loop msg items (best_match, best_score))"

definition no_match_response :: response where
  "no_match_response =
     \<lparr>message = ''I couldn't find an answer to your question in our knowledge base. Please try rephrasing your question or contact support for assistance.'',
      source = ''no_match'',
      confidence = 0\<rparr>"

text \<open>
  With string keys and numeric confidences nothing in the \<open>try\<close> block of
  \<open>_get_faq_response\<close> raises, so its handler (the response with the text "I encountered an
  error while searching for an answer", source error) has no branch here.
\<close>

definition get_faq_response :: "chatbot_service \<Rightarrow> string \<Rightarrow> response \<times> log_record list" where
  "get_faq_response self msg =
     (case faq_loop msg (faq_database self) (None, 0) of
        (best_match, best_score) \<Rightarrow>
          (case best_match of
             None \<Rightarrow> (no_match_response, [])
           | Some data \<Rightarrow>
               if faq_data_truthy data
               then (\<lparr>message = answer data,
                      source = ''faq'',
                      confidence = faq_data.confidence data * best_score\<rparr>, [])
               else (no_match_response, [])))"

subsection \<open>The entry point: \<open>get_response\<close>\<close>

definition default_response :: response where
  "default_response =
     \<lparr>message = ''I apologize, but I don't have a specific answer to your question. Please contact system administrators or check the documentation for more detailed assistance.'',
      source = ''default'',
      confidence = 3 / 10\<rparr>"

definition technical_response :: response where
  "technical_response =
     \<lparr>message = ''I'm experiencing technical difficulties. Please try again later or contact support.'',
      source = ''error'',
      confidence = 0\<rparr>"

text \<open>
  The lines after the OpenAI attempt: the FAQ answer when the dictionary returned by
  \<open>_get_faq_response\<close> is true, the default response otherwise.
\<close>

definition faq_fallback :: "chatbot_service \<Rightarrow> string \<Rightarrow> response \<times> log_record list" where
  "faq_fallback self clean_message =
     (case get_faq_response self clean_message of
        (faq_response, logged) \<Rightarrow>
          if response_truthy faq_response then (faq_response, logged)
          else (default_response, logged))"

text \<open>
  The body of the outer \<open>try\<close> block. The only statement of it that can raise is
  \<open>message.lower().strip()\<close>, on a message that is not a string: the two helpers catch every
  exception themselves, so the inner handler of \<open>get_response\<close> (the warning "OpenAI API
  error, falling back to FAQ") has nothing to catch and no branch here. The original
  message goes to the hosted model, the normalised one to the FAQ.
\<close>

definition get_response_try ::
    "chatbot_service \<Rightarrow> pyval \<Rightarrow> context_dict option \<Rightarrow> (exn + response) \<times> log_record list" where
  "get_response_try self msg ctx =
     (case msg of
        PyStr m \<Rightarrow>
          (let clean_message = strip (lower m)
           in if client self \<noteq> None \<and> str_truthy (openai_api_key self)
              then (case get_openai_response self m ctx of
                      (openai_response, logged) \<Rightarrow>
                        if response_truthy openai_response then (Inr openai_response, logged)
                        else (case faq_fallback self clean_message of
                                (r, logged') \<Rightarrow> (Inr r, logged @ logged')))
              else (case faq_fallback self clean_message of (r, logged) \<Rightarrow> (Inr r, logged)))
      | _ \<Rightarrow> (Inl (no_attribute msg ''lower''), []))"

definition get_response ::
    "chatbot_service \<Rightarrow> pyval \<Rightarrow> context_dict option \<Rightarrow> response \<times> log_record list" where
  "get_response self msg ctx =
     (case get_response_try self msg ctx of
        (Inr r, logged) \<Rightarrow> (r, logged)
      | (Inl e, logged) \<Rightarrow>
          (technical_response, logged @ [Error (''Chatbot service error: '' @ str_exn e)]))"

subsection \<open>\<open>add_faq_entry\<close> and \<open>is_openai_available\<close>\<close>

text \<open>
  \<open>question.lower().strip()\<close> raises on a question that is not a string; the handler logs
  the exception and the dictionary stays as it was.
\<close>

definition add_faq_entry ::
    "chatbot_service \<Rightarrow> pyval \<Rightarrow> string \<Rightarrow> rat \<Rightarrow> chatbot_service \<times> log_record list" where
  "add_faq_entry self question ans conf =
     (case question of
        PyStr q \<Rightarrow>
          (let key = strip (lower q)
           in (self\<lparr>faq_database :=
                     dict_setitem (faq_database self) key \<lparr>answer = ans, confidence = conf\<rparr>\<rparr>,
               [Info (''FAQ entry added: '' @ key)]))
      | _ \<Rightarrow>
          (self, [Error (''FAQ entry addition error: '' @ str_exn (no_attribute question ''lower''))]))"

definition is_openai_available :: "chatbot_service \<Rightarrow> bool" where
  "is_openai_available self = (client self \<noteq> None \<and> openai_api_key self \<noteq> None)"

section \<open>Notions used in the properties\<close>

text \<open>
  The score the loop of \<open>faq_loop\<close> gives a key for a message: the number of distinct words
  the key shares with the message, over the number of words of the key (at least 1).
\<close>

definition keyword_score :: "string \<Rightarrow> string \<Rightarrow> rat" where
  "keyword_score faq_key msg =
     of_nat (card (set (split faq_key) \<inter> set (split msg)))
       / of_nat (max (length (split faq_key)) 1)"




text \<open>Every entry of a store has its confidence in the interval from 0 to 1.\<close>

definition confidences_valid :: "(string \<times> faq_data) list \<Rightarrow> bool" where
  "confidences_valid store =
     list_all (\<lambda>(k, d). 0 \<le> faq_data.confidence d \<and> faq_data.confidence d \<le> 1) store"

text \<open>
  Two services for the concrete runs: one constructed without \<open>OPENAI_API_KEY\<close>, one
  constructed with a key whose every remote call raises.
\<close>

definition unreachable_api :: "string option \<Rightarrow> llm_client" where
  "unreachable_api api_key messages = Inl (APIError ''Connection error.'')"

definition offline_service :: chatbot_service where
  "offline_service = init None unreachable_api"

definition failing_service :: chatbot_service where
  "failing_service = init (Some ''sk-test'') unreachable_api"

section \<open>Lemmas on strings\<close>

lemma of_char_lower_up:
  fixes n :: nat
  assumes "n \<le> 222"
  shows "(of_char (char_of (n + 32) :: char) :: nat) = n + 32"
  using assms by (simp add: of_char_of)

lemma isspace_lower_char: "isspace (lower_char c) = isspace c"
proof -
  define n where "n = (of_char c :: nat)"
  show ?thesis
  proof (cases "(65 \<le> n \<and> n \<le> 90) \<or> (192 \<le> n \<and> n \<le> 214) \<or> (216 \<le> n \<and> n \<le> 222)")
    case True
    then have le: "n \<le> 222" by arith
    have low: "lower_char c = char_of (n + 32)"
      using True by (simp add: lower_char_def n_def Let_def)
    have a: "\<not> isspace c"
      using True unfolding isspace_def Let_def n_def [symmetric] by arith
    have b: "\<not> isspace (char_of (n + 32))"
      using True unfolding isspace_def Let_def of_char_lower_up [OF le] by arith
    from a b low show ?thesis by simp
  next
    case False
    then have "lower_char c = c"
      unfolding lower_char_def Let_def n_def [symmetric] by (rule if_not_P)
    then show ?thesis by simp
  qed
qed

lemma strip_lower: "strip (lower s) = lower (strip s)"
proof -
  have comp: "isspace \<circ> lower_char = isspace"
    by (rule ext) (simp add: isspace_lower_char)
  show ?thesis
    by (simp add: strip_def lower_def dropWhile_map rev_map comp)
qed

lemma split_Nil: "split [] = []"
  by (simp add: split_def)

section \<open>Lemmas on the loop of the FAQ matcher\<close>

lemma faq_loop_Cons:
  "faq_loop msg ((k, d) # items) (bm, bs) =
     (if keyword_score k msg > bs \<and> keyword_score k msg > 3 / 10
      then faq_loop msg items (Some d, keyword_score k msg)
      else faq_loop msg items (bm, bs))"
  by (simp add: keyword_score_def Let_def)




lemma faq_loop_none_eligible:
  "list_all (\<lambda>(k, d). \<not> (keyword_score k msg > bs \<and> keyword_score k msg > 3 / 10)) items \<Longrightarrow>
   faq_loop msg items (bm, bs) = (bm, bs)"
proof (induction items)
  case Nil
  show ?case by simp
next
  case (Cons p items)
  obtain k d where p: "p = (k, d)" by (cases p)
  from Cons.prems p have no: "\<not> (keyword_score k msg > bs \<and> keyword_score k msg > 3 / 10)"
    and rest: "list_all (\<lambda>(k, d). \<not> (keyword_score k msg > bs \<and> keyword_score k msg > 3 / 10)) items"
    by simp_all
  have "faq_loop msg (p # items) (bm, bs) = faq_loop msg items (bm, bs)"
    using no by (simp only: p faq_loop_Cons if_False simp_thms)
  with Cons.IH [OF rest] show ?case by simp
qed


lemma keyword_score_empty_message: "keyword_score k [] = 0"
  by (simp add: keyword_score_def split_Nil)

section \<open>Lemmas on the store and on the entry point\<close>

lemma get_faq_response_cong:
  "faq_database s = faq_database t \<Longrightarrow> get_faq_response s msg = get_faq_response t msg"
  by (simp add: get_faq_response_def)

lemma faq_database_init: "faq_database (init env_key OpenAI) = seed_faq_database"
  by (simp add: init_def)

lemma faq_database_add_str:
  "faq_database (fst (add_faq_entry self (PyStr q) ans conf)) =
     dict_setitem (faq_database self) (strip (lower q)) \<lparr>answer = ans, confidence = conf\<rparr>"
  by (simp add: add_faq_entry_def Let_def)

lemma map_of_dict_setitem: "map_of (dict_setitem items key v) = (map_of items)(key \<mapsto> v)"
  by (induction items key v rule: dict_setitem.induct) (auto simp: fun_eq_iff)

lemma keys_dict_setitem:
  "map fst (dict_setitem items key v) =
     (if key \<in> set (map fst items) then map fst items else map fst items @ [key])"
  by (induction items key v rule: dict_setitem.induct) auto

lemma add_faq_entry_fields:
  "openai_api_key (fst (add_faq_entry self question ans conf)) = openai_api_key self"
  "client (fst (add_faq_entry self question ans conf)) = client self"
  by (simp_all add: add_faq_entry_def Let_def split: pyval.splits)

lemma get_response_not_str:
  "(\<forall>m. msg \<noteq> PyStr m) \<Longrightarrow> get_response_try self msg ctx = (Inl (no_attribute msg ''lower''), [])"
  by (cases msg) (simp_all add: get_response_try_def)

lemma get_response_try_str: "\<exists>r. fst (get_response_try self (PyStr m) ctx) = Inr r"
  by (simp add: get_response_try_def Let_def split: prod.splits)

section \<open>The FAQ matcher on concrete queries\<close>

text \<open>
  Claim C5. From the seed store, \<open>add_faq_entry("New Question", "New answer", 0.8)\<close> stores
  the entry under the normalised key \<open>new question\<close>, after the eight seed entries, and
  the matcher then answers the query \<open>new question\<close> with the new answer, source faq and
  confidence exactly 0.8: the entry's confidence 0.8 times the score 1 of a full overlap.
  This holds whatever the environment variable and the client library were at
  construction.
\<close>

theorem add_new_question_then_match:
  "faq_database (fst (add_faq_entry (init env_key OpenAI) (PyStr ''New Question'') ''New answer'' (4 / 5)))
     = seed_faq_database @ [(''new question'', \<lparr>answer = ''New answer'', confidence = 4 / 5\<rparr>)]
   \<and> keyword_score ''new question'' ''new question'' = 1
   \<and> get_faq_response
        (fst (add_faq_entry (init env_key OpenAI) (PyStr ''New Question'') ''New answer'' (4 / 5)))
        ''new question''
       = (\<lparr>message = ''New answer'', source = ''faq'', confidence = 4 / 5\<rparr>, [])"
proof -
  let ?s = "fst (add_faq_entry (init env_key OpenAI) (PyStr ''New Question'') ''New answer'' (4 / 5))"
  let ?t = "fst (add_faq_entry offline_service (PyStr ''New Question'') ''New answer'' (4 / 5))"
  have same: "faq_database ?s = faq_database ?t"
    by (simp only: faq_database_add_str faq_database_init offline_service_def)
  have store: "faq_database ?t =
      seed_faq_database @ [(''new question'', \<lparr>answer = ''New answer'', confidence = 4 / 5\<rparr>)]"
    by code_simp
  have score: "keyword_score ''new question'' ''new question'' = 1"
    by code_simp
  have answer: "get_faq_response ?t ''new question'' =
      (\<lparr>message = ''New answer'', source = ''faq'', confidence = 4 / 5\<rparr>, [])"
    by code_simp
  from same store score answer get_faq_response_cong [OF same, of "''new question''"]
  show ?thesis by (simp only: simp_thms)
qed

text \<open>
  Claim C7, as the code has it. Against the seed store the query
  \<open>tell me about actms system\<close> shares the one word \<open>actms\<close> with the three words of the
  key \<open>what is actms\<close>: the score is 1/3, not 2/3. It is above the threshold 3/10, no other
  seed entry reaches the threshold, and the ACTMS definition is returned with source faq and
  confidence 1/3 (the entry's confidence 1 times the score).
\<close>

theorem tell_me_about_actms_score:
  "keyword_score ''what is actms'' ''tell me about actms system'' = 1 / 3
   \<and> (3 / 10 :: rat) < 1 / 3
   \<and> get_faq_response (init env_key OpenAI) ''tell me about actms system''
       = (\<lparr>message = ''ACTMS (Anti-Corruption Tender Management System) is a comprehensive platform for managing government tenders with AI-powered fraud detection.'',
           source = ''faq'', confidence = 1 / 3\<rparr>, [])"
proof -
  have same: "faq_database (init env_key OpenAI) = faq_database offline_service"
    by (simp only: faq_database_init offline_service_def)
  have score: "keyword_score ''what is actms'' ''tell me about actms system'' = 1 / 3"
    by code_simp
  have answer: "get_faq_response offline_service ''tell me about actms system''
       = (\<lparr>message = ''ACTMS (Anti-Corruption Tender Management System) is a comprehensive platform for managing government tenders with AI-powered fraud detection.'',
           source = ''faq'', confidence = 1 / 3\<rparr>, [])"
    by code_simp
  have "(3 / 10 :: rat) < 1 / 3" by simp
  with score answer get_faq_response_cong [OF same, of "''tell me about actms system''"]
  show ?thesis by (simp only: simp_thms)
qed

text \<open>
  Claim C7 as the specification states it fails: neither the score of the key
  \<open>what is actms\<close> nor the confidence returned for the query is 2/3.
\<close>

theorem tell_me_about_actms_not_two_thirds:
  "keyword_score ''what is actms'' ''tell me about actms system'' \<noteq> 2 / 3
   \<and> confidence (fst (get_faq_response offline_service ''tell me about actms system'')) \<noteq> 2 / 3"
  by code_simp

section \<open>The empty query\<close>

text \<open>
  Claim C6. For every service, whatever its FAQ store holds, the matcher answers the empty
  string with the fixed no-match response (source \<open>no_match\<close>, confidence 0) and logs
  nothing: the empty message has no word, so every key scores 0 and none passes the
  threshold. The matcher has no branch for the empty input; the result comes from the loop.
\<close>

theorem faq_empty_message_no_match:
  "get_faq_response self [] = (no_match_response, [])
   \<and> source no_match_response = ''no_match'' \<and> confidence no_match_response = 0"
proof -
  have "list_all (\<lambda>(k, d). \<not> (keyword_score k [] > 0 \<and> keyword_score k [] > 3 / 10)) items"
    for items :: "(string \<times> faq_data) list"
    by (induction items) (auto simp: keyword_score_empty_message)
  then have "faq_loop [] (faq_database self) (None, 0) = (None, 0)"
    by (rule faq_loop_none_eligible)
  then show ?thesis
    by (simp add: get_faq_response_def no_match_response_def)
qed

section \<open>The store under \<open>add_faq_entry\<close>\<close>

text \<open>
  Claim C10. For every question string, answer and confidence \<open>c\<close>, in the interval from 0
  to 1 or not, \<open>add_faq_entry\<close> changes the FAQ store at the one key
  \<open>lower (strip question)\<close>: as a map the new store is the old one updated at that key
  with the given answer and the confidence \<open>c\<close> as given, so every other key keeps its
  entry. The order of the keys is kept, a new key goes last, and the credential and the
  client are untouched.
\<close>

theorem add_faq_entry_frame:
  "map_of (faq_database (fst (add_faq_entry self (PyStr question) ans c))) =
     (map_of (faq_database self))(lower (strip question) \<mapsto> \<lparr>answer = ans, confidence = c\<rparr>)
   \<and> map fst (faq_database (fst (add_faq_entry self (PyStr question) ans c))) =
       (if lower (strip question) \<in> set (map fst (faq_database self))
        then map fst (faq_database self)
        else map fst (faq_database self) @ [lower (strip question)])
   \<and> openai_api_key (fst (add_faq_entry self (PyStr question) ans c)) = openai_api_key self
   \<and> client (fst (add_faq_entry self (PyStr question) ans c)) = client self"
  by (simp only: faq_database_add_str map_of_dict_setitem keys_dict_setitem strip_lower
        add_faq_entry_fields simp_thms)

section \<open>Availability of the hosted model\<close>

text \<open>
  Claim C8. \<open>is_openai_available\<close> is true exactly when the service holds a client and a
  credential. Right after construction that is the case exactly when the environment
  variable was set to a non-empty key; without a credential it is false. It only reads the
  service, and \<open>add_faq_entry\<close>, the one operation that changes the service, does not
  change its value.
\<close>

theorem is_openai_available_iff:
  "is_openai_available self = (client self \<noteq> None \<and> openai_api_key self \<noteq> None)
   \<and> is_openai_available (init env_key OpenAI) = (env_key \<noteq> None \<and> env_key \<noteq> Some [])
   \<and> is_openai_available (init None OpenAI) = False
   \<and> is_openai_available (fst (add_faq_entry self question ans c)) = is_openai_available self"
  by (auto simp: is_openai_available_def init_def str_truthy_def add_faq_entry_fields
        split: option.splits)

section \<open>No exception leaves \<open>get_response\<close>\<close>

text \<open>
  Claim C9. \<open>get_response\<close> returns a response on every input. Whenever the body of its
  \<open>try\<close> block raises an exception \<open>e\<close>, the outer handler returns the fixed "technical
  difficulties" response with source error and confidence 0 and logs the exception; when
  the body returns a response, that response is the result. The body raises exactly on
  the messages that are not strings.
\<close>

theorem get_response_never_raises:
  "(fst (get_response_try self msg ctx) = Inl e \<longrightarrow>
      get_response self msg ctx =
        (\<lparr>message = ''I'm experiencing technical difficulties. Please try again later or contact support.'',
          source = ''error'', confidence = 0\<rparr>,
         snd (get_response_try self msg ctx) @ [Error (''Chatbot service error: '' @ str_exn e)]))
   \<and> (fst (get_response_try self msg ctx) = Inr r \<longrightarrow>
        get_response self msg ctx = (r, snd (get_response_try self msg ctx)))
   \<and> ((\<exists>e'. fst (get_response_try self msg ctx) = Inl e') = (\<forall>m. msg \<noteq> PyStr m))"
proof (intro conjI impI)
  assume "fst (get_response_try self msg ctx) = Inl e"
  then show "get_response self msg ctx =
        (\<lparr>message = ''I'm experiencing technical difficulties. Please try again later or contact support.'',
          source = ''error'', confidence = 0\<rparr>,
         snd (get_response_try self msg ctx) @ [Error (''Chatbot service error: '' @ str_exn e)])"
    by (cases "get_response_try self msg ctx") (simp add: get_response_def technical_response_def)
next
  assume "fst (get_response_try self msg ctx) = Inr r"
  then show "get_response self msg ctx = (r, snd (get_response_try self msg ctx))"
    by (cases "get_response_try self msg ctx") (simp add: get_response_def)
next
  show "(\<exists>e'. fst (get_response_try self msg ctx) = Inl e') = (\<forall>m. msg \<noteq> PyStr m)"
  proof (cases "\<forall>m. msg \<noteq> PyStr m")
    case True
    then show ?thesis by (simp add: get_response_not_str)
  next
    case False
    then obtain m where "msg = PyStr m" by blast
    with get_response_try_str [of self m ctx] show ?thesis by auto
  qed
qed

text \<open>
  The message \<open>None\<close> on the service without a key: \<open>None.lower()\<close> raises, and the caller
  gets the "technical difficulties" response.
\<close>

theorem get_response_never_raises_witness:
  "fst (get_response_try offline_service PyNone None) =
      Inl (AttributeError ('''NoneType' object has no attribute 'lower'' @ [CHR 0x27]))
   \<and> get_response offline_service PyNone None =
        (\<lparr>message = ''I'm experiencing technical difficulties. Please try again later or contact support.'',
          source = ''error'', confidence = 0\<rparr>,
         [Error (''Chatbot service error: 'NoneType' object has no attribute 'lower'' @ [CHR 0x27])])"
proof -
  have h: "fst (get_response_try offline_service PyNone None) =
      Inl (AttributeError ('''NoneType' object has no attribute 'lower'' @ [CHR 0x27]))"
    by code_simp
  have s: "snd (get_response_try offline_service PyNone None) = []"
    by code_simp
  from get_response_never_raises [THEN conjunct1, rule_format, OF h] h s
  show ?thesis by simp
qed

section \<open>Lemmas on the results of the two tiers\<close>

lemma get_faq_response_none:
  "faq_loop msg (faq_database self) (None, 0) = (None, s) \<Longrightarrow>
   get_faq_response self msg = (no_match_response, [])"
  by (simp add: get_faq_response_def)

lemma get_faq_response_some:
  "faq_loop msg (faq_database self) (None, 0) = (Some d, s) \<Longrightarrow>
   get_faq_response self msg =
     (\<lparr>message = answer d, source = ''faq'', confidence = faq_data.confidence d * s\<rparr>, [])"
  by (simp add: get_faq_response_def faq_data_truthy_def faq_data_len_def)

lemma get_response_str:
  "get_response self (PyStr m) ctx =
     (if client self \<noteq> None \<and> str_truthy (openai_api_key self)
      then get_openai_response self m ctx
      else get_faq_response self (strip (lower m)))"
  by (simp add: get_response_def get_response_try_def faq_fallback_def response_truthy_def
        response_len_def Let_def split: prod.splits)

lemma get_response_other:
  "(\<forall>m. msg \<noteq> PyStr m) \<Longrightarrow> fst (get_response self msg ctx) = technical_response"
  by (simp add: get_response_def get_response_not_str)

lemma get_openai_response_cases:
  "fst (get_openai_response self m ctx) = openai_error_response
   \<or> (\<exists>t. fst (get_openai_response self m ctx) =
         \<lparr>message = t, source = ''openai'', confidence = 9 / 10\<rparr>)"
  by (simp add: get_openai_response_def openai_try_def Let_def split: sum.splits option.splits)

lemma faq_loop_result:
  "faq_loop msg items (bm, bs) = (bm', bs') \<Longrightarrow>
   (bm' = bm \<and> bs' = bs)
   \<or> (\<exists>k d. (k, d) \<in> set items \<and> bm' = Some d \<and> bs' = keyword_score k msg
            \<and> 3 / 10 < keyword_score k msg)"
proof (induction items arbitrary: bm bs)
  case Nil
  then show ?case by simp
next
  case (Cons p items)
  obtain k d where p: "p = (k, d)" by (cases p)
  show ?case
  proof (cases "keyword_score k msg > bs \<and> keyword_score k msg > 3 / 10")
    case True
    with Cons.prems have "faq_loop msg items (Some d, keyword_score k msg) = (bm', bs')"
      by (simp only: p faq_loop_Cons if_True simp_thms)
    from Cons.IH [OF this] True p show ?thesis by auto
  next
    case False
    with Cons.prems have "faq_loop msg items (bm, bs) = (bm', bs')"
      by (simp only: p faq_loop_Cons if_False simp_thms)
    from Cons.IH [OF this] p show ?thesis by auto
  qed
qed



lemma get_faq_response_cases:
  "get_faq_response self msg = (no_match_response, [])
   \<or> (\<exists>k d. (k, d) \<in> set (faq_database self) \<and> 3 / 10 < keyword_score k msg
        \<and> get_faq_response self msg =
            (\<lparr>message = answer d, source = ''faq'',
              confidence = faq_data.confidence d * keyword_score k msg\<rparr>, []))"
proof -
  obtain bm s where loop: "faq_loop msg (faq_database self) (None, 0) = (bm, s)"
    by (cases "faq_loop msg (faq_database self) (None, 0)")
  show ?thesis
  proof (cases bm)
    case None
    with loop show ?thesis by (simp add: get_faq_response_none)
  next
    case (Some d)
    with faq_loop_result [OF loop] obtain k where
      "(k, d) \<in> set (faq_database self)" "s = keyword_score k msg" "3 / 10 < keyword_score k msg"
      by auto
    with loop Some get_faq_response_some [of msg self d s] show ?thesis by auto
  qed
qed


lemma get_response_sources:
  "source (fst (get_response self msg ctx)) \<in> {''openai'', ''faq'', ''no_match'', ''error''}"
proof (cases "\<forall>m. msg \<noteq> PyStr m")
  case True
  then show ?thesis by (simp add: get_response_other technical_response_def)
next
  case False
  then obtain m where m: "msg = PyStr m" by blast
  show ?thesis
  proof (cases "client self \<noteq> None \<and> str_truthy (openai_api_key self)")
    case True
    with get_openai_response_cases [of self m ctx] m show ?thesis
      by (auto simp: get_response_str openai_error_response_def)
  next
    case False
    with get_faq_response_cases [of self "strip (lower m)"] m show ?thesis
      by (auto simp: get_response_str no_match_response_def)
  qed
qed


lemma confidences_valid_seed: "confidences_valid (faq_database (init env_key OpenAI))"
  by (simp add: faq_database_init confidences_valid_def seed_faq_database_def)

lemma confidences_valid_dict_setitem:
  "confidences_valid store \<Longrightarrow> 0 \<le> c \<Longrightarrow> c \<le> 1 \<Longrightarrow>
   confidences_valid (dict_setitem store key \<lparr>answer = ans, confidence = c\<rparr>)"
  by (induction store key "\<lparr>answer = ans, confidence = c\<rparr>" rule: dict_setitem.induct)
     (auto simp: confidences_valid_def)

lemma confidences_valid_add:
  "confidences_valid (faq_database self) \<Longrightarrow> 0 \<le> c \<Longrightarrow> c \<le> 1 \<Longrightarrow>
   confidences_valid (faq_database (fst (add_faq_entry self question ans c)))"
  by (cases question)
     (simp_all add: faq_database_add_str confidences_valid_dict_setitem, simp_all add: add_faq_entry_def)

section \<open>What the FAQ matcher selects\<close>




section \<open>The fallback chain of \<open>get_response\<close>\<close>

text \<open>
  Claim C1 does not hold on the code. With a client configured and a remote call that
  raises, \<open>_get_openai_response\<close> catches the exception itself and returns its own error
  response; that dictionary is true, so \<open>get_response\<close> returns it and never consults the
  FAQ. On the service whose every remote call raises, the question \<open>what is actms\<close> gets
  the error response of the adapter, although the FAQ matcher has the answer with
  confidence 1.
\<close>

theorem get_response_llm_failure_is_final:
  "get_response failing_service (PyStr ''what is actms'') None =
     (\<lparr>message = ''I apologize, but I'm currently unable to provide a response. Please try asking a different question or contact support.'',
       source = ''error'', confidence = 0\<rparr>,
      [Error ''OpenAI API error: Connection error.''])
   \<and> get_faq_response failing_service ''what is actms'' =
     (\<lparr>message = ''ACTMS (Anti-Corruption Tender Management System) is a comprehensive platform for managing government tenders with AI-powered fraud detection.'',
       source = ''faq'', confidence = 1\<rparr>, [])"
  by code_simp

text \<open>
  Claim C2 does not hold on the code. No input makes \<open>get_response\<close> return a response with
  source \<open>default\<close>: \<open>_get_faq_response\<close> returns a dictionary in every case, a dictionary
  with keys is true, and the default response after it is never reached. On the service
  without a key, the message \<open>Hello there\<close>, which matches no FAQ entry, gets the matcher's
  no-match response with source \<open>no_match\<close> and confidence 0.
\<close>

theorem get_response_never_default:
  "source (fst (get_response self msg ctx)) \<noteq> ''default''
   \<and> get_response offline_service (PyStr ''Hello there'') None = (no_match_response, [])
   \<and> source no_match_response = ''no_match''
   \<and> confidence no_match_response = 0
   \<and> source default_response = ''default''"
proof -
  have a: "source (fst (get_response self msg ctx)) \<noteq> ''default''"
    using get_response_sources [of self msg ctx] by auto
  have b: "get_response offline_service (PyStr ''Hello there'') None = (no_match_response, [])"
    by code_simp
  have c: "source no_match_response = ''no_match'' \<and> confidence no_match_response = 0
      \<and> source default_response = ''default''"
    by (simp add: no_match_response_def default_response_def)
  from a b c show ?thesis by (simp only: simp_thms)
qed

section \<open>The range of the confidence and of the source\<close>




end
